theory Spec2Isabelle
  imports Complex_Main
begin

section \<open>Batch padding (model_wrapper/base.py, \<open>_pad\<close>)\<close>

text \<open>
  Token ids are Python integers, a sequence is a list of them and a batch side is a list
  of sequences. The two enumerations are imported by the source from \<open>..enums\<close>;
  their members are the ones the source compares against.
\<close>

datatype PaddingSide = left | right

datatype LossMask = output_only | no_mask

text \<open>
  The \<open>loss_mask\<close> argument is a member of \<open>LossMask\<close> or any other Python object
  (the wrapper passes \<open>None\<close> outside training). Another object compares unequal to both
  members; it is carried as the text an f-string renders it to.
\<close>

datatype loss_mask_arg = Policy LossMask | NotAPolicy string

datatype error =
    ValueError string
  | MaxOfEmpty
  | AssertionError string
  | TypeError
  | TensorError
  | NotImplementedError string
  | KeyError string
  | IndexError
  | AttributeError
  | UnboundLocalError
  | ZeroDivisionError
  | Exception string
  | FloatRange

text \<open>
  A nested Python list, or the dense tensor \<open>torch.tensor\<close> makes of one (its rows).
\<close>

datatype nested = PyList "int list list" | Tensor "int list list"

fun rows_of :: "nested \<Rightarrow> int list list" where
  "rows_of (PyList rows) = rows"
| "rows_of (Tensor rows) = rows"

abbreviation len :: "'a list \<Rightarrow> int" where
  "len xs \<equiv> int (length xs)"

text \<open>\<open>[x] * n\<close>: a Python list repeated a negative number of times is empty.\<close>

definition py_repeat :: "'a \<Rightarrow> int \<Rightarrow> 'a list" where
  "py_repeat x n = replicate (nat n) x"

text \<open>\<open>max(list(map(len, rows)))\<close>: \<open>max\<close> of an empty list raises ValueError.\<close>

definition max_len :: "'a list list \<Rightarrow> error + int" where
  "max_len rows =
     (case map len rows of
        [] \<Rightarrow> Inl MaxOfEmpty
      | l # ls \<Rightarrow> Inr (fold max ls l))"

text \<open>
  \<open>torch.tensor\<close> of a nested list of integers. The sizes of the tensor are the length
  of the list and the length of its first row. When the tensor has no element (no row, or
  an empty first row) nothing else is looked at and the result is the empty tensor of
  those sizes, whatever the other rows are. Otherwise every row must have the length of the
  first one (ValueError) and every integer must be in the 64-bit signed range
  (RuntimeError); the two exceptions are the one value \<open>TensorError\<close> here.
\<close>

definition fits_int64 :: "int \<Rightarrow> bool" where
  "fits_int64 v \<longleftrightarrow> - (2 ^ 63) \<le> v \<and> v < 2 ^ 63"

definition rectangular :: "'a list list \<Rightarrow> bool" where
  "rectangular rows =
     (case rows of [] \<Rightarrow> True | r # rs \<Rightarrow> list_all (\<lambda>q. length q = length r) rs)"

definition torch_tensor :: "int list list \<Rightarrow> error + nested" where
  "torch_tensor rows =
     (case rows of
        [] \<Rightarrow> Inr (Tensor [])
      | r # rs \<Rightarrow>
          if r = [] then Inr (Tensor (replicate (length rows) []))
          else if rectangular rows \<and> list_all (list_all fits_int64) rows
          then Inr (Tensor rows) else Inl TensorError)"

text \<open>
  The body of \<open>_pad\<close> up to its final conversion step: the three nested lists
  \<open>input_ids\<close>, \<open>attention_mask\<close> and \<open>labels\<close> (\<open>None\<close> where the source leaves
  the variable \<open>None\<close>), or the exception raised.
\<close>

definition pad_lists ::
  "int list list \<Rightarrow> int list list option \<Rightarrow> int \<Rightarrow> PaddingSide \<Rightarrow> bool \<Rightarrow> loss_mask_arg \<Rightarrow> bool
     \<Rightarrow> int \<Rightarrow> error + (int list list \<times> int list list option \<times> int list list option)" where
  "pad_lists inputs outputs pad_token_id padding_side is_encoder_decoder loss_mask
       use_padding_free_transformer labels_mask_value =
   (if is_encoder_decoder then
      (case max_len inputs of
         Inl e \<Rightarrow> Inl e
       | Inr input_max_length \<Rightarrow>
          (let input_ids =
                 (if padding_side = left
                  then map (\<lambda>array. py_repeat pad_token_id (input_max_length - len array) @ array) inputs
                  else map (\<lambda>array. array @ py_repeat pad_token_id (input_max_length - len array)) inputs);
               attention_mask =
                 (if padding_side = left
                  then map (\<lambda>array. py_repeat 0 (input_max_length - len array) @ py_repeat 1 (len array)) inputs
                  else map (\<lambda>array. py_repeat 1 (len array) @ py_repeat 0 (input_max_length - len array)) inputs)
           in (case outputs of
                 None \<Rightarrow> Inr (input_ids, Some attention_mask, None)
               | Some outs \<Rightarrow>
                  (if loss_mask \<noteq> Policy output_only
                   then Inl (AssertionError
                          ''only output_only loss mask is supported with encoder decoder models'')
                   else (case max_len outs of
                           Inl e \<Rightarrow> Inl e
                         | Inr output_max_length \<Rightarrow>
                            Inr (input_ids, Some attention_mask,
                                 Some (map (\<lambda>array. array
                                          @ py_repeat labels_mask_value (output_max_length - len array))
                                        outs)))))))
    else if use_padding_free_transformer then
      (case loss_mask of
         Policy output_only \<Rightarrow>
           (case outputs of
              None \<Rightarrow> Inl TypeError
            | Some outs \<Rightarrow>
               Inr (inputs, None,
                    Some (map (\<lambda>(array_in, array_out).
                                 py_repeat labels_mask_value (len array_in - len array_out) @ array_out)
                           (zip inputs outs))))
       | Policy no_mask \<Rightarrow> Inr (inputs, None, Some inputs)
       | NotAPolicy s \<Rightarrow> Inl (ValueError (''unexpected loss_mask ('' @ s @ '')'')))
    else
      (case max_len inputs of
         Inl e \<Rightarrow> Inl e
       | Inr max_length \<Rightarrow>
          (if padding_side = left then
             (let input_ids =
                    map (\<lambda>array. py_repeat pad_token_id (max_length - len array) @ array) inputs;
                  attention_mask =
                    map (\<lambda>array. py_repeat 0 (max_length - len array) @ py_repeat 1 (len array)) inputs
              in (case outputs of
                    None \<Rightarrow> Inr (input_ids, Some attention_mask, None)
                  | Some outs \<Rightarrow>
                     (case loss_mask of
                        Policy output_only \<Rightarrow>
                          Inr (input_ids, Some attention_mask,
                               Some (map (\<lambda>array. py_repeat labels_mask_value (max_length - len array)
                                                     @ array) outs))
                      | Policy no_mask \<Rightarrow> Inr (input_ids, Some attention_mask, Some inputs)
                      | NotAPolicy s \<Rightarrow>
                          Inl (ValueError (''unexpected loss_mask ('' @ s @ '')'')))))
           else
             (let input_ids =
                    map (\<lambda>array. array @ py_repeat pad_token_id (max_length - len array)) inputs;
                  attention_mask =
                    map (\<lambda>array. py_repeat 1 (len array) @ py_repeat 0 (max_length - len array)) inputs
              in (case outputs of
                    None \<Rightarrow> Inr (input_ids, Some attention_mask, None)
                  | Some outs \<Rightarrow>
                     (case loss_mask of
                        Policy output_only \<Rightarrow>
                          Inr (input_ids, Some attention_mask,
                               Some (map (\<lambda>(array_in, array_out).
                                            py_repeat labels_mask_value (len array_in - len array_out)
                                            @ array_out
                                            @ py_repeat labels_mask_value (max_length - len array_in))
                                      (zip inputs outs)))
                      | Policy no_mask \<Rightarrow> Inr (input_ids, Some attention_mask, Some inputs)
                      | NotAPolicy s \<Rightarrow>
                          Inl (ValueError (''unexpected loss_mask ('' @ s @ '')''))))))))"

text \<open>
  \<open>_pad\<close>: outside padding-free mode the three results are converted with
  \<open>torch.tensor\<close>, in the source's order (\<open>input_ids\<close>, \<open>attention_mask\<close>, then
  \<open>labels\<close> when it is not \<open>None\<close>); in padding-free mode the nested lists are
  returned as they are.
\<close>

definition pad ::
  "int list list \<Rightarrow> int list list option \<Rightarrow> int \<Rightarrow> PaddingSide \<Rightarrow> bool \<Rightarrow> loss_mask_arg \<Rightarrow> bool
     \<Rightarrow> int \<Rightarrow> error + (nested \<times> nested option \<times> nested option)" where
  "pad inputs outputs pad_token_id padding_side is_encoder_decoder loss_mask
       use_padding_free_transformer labels_mask_value =
   (case pad_lists inputs outputs pad_token_id padding_side is_encoder_decoder loss_mask
           use_padding_free_transformer labels_mask_value of
      Inl e \<Rightarrow> Inl e
    | Inr (input_ids, attention_mask, labels) \<Rightarrow>
       (if \<not> use_padding_free_transformer then
          (case torch_tensor input_ids of
             Inl e \<Rightarrow> Inl e
           | Inr input_ids_t \<Rightarrow>
              (case attention_mask of
                 None \<Rightarrow> Inl TensorError
               | Some mask_rows \<Rightarrow>
                  (case torch_tensor mask_rows of
                     Inl e \<Rightarrow> Inl e
                   | Inr attention_mask_t \<Rightarrow>
                      (case labels of
                         None \<Rightarrow> Inr (input_ids_t, Some attention_mask_t, None)
                       | Some label_rows \<Rightarrow>
                          (case torch_tensor label_rows of
                             Inl e \<Rightarrow> Inl e
                           | Inr labels_t \<Rightarrow>
                              Inr (input_ids_t, Some attention_mask_t, Some labels_t))))))
        else Inr (PyList input_ids, map_option PyList attention_mask, map_option PyList labels)))"

section \<open>The model wrapper (model_wrapper/base.py, \<open>ModelWrapper\<close>)\<close>

datatype Mode = training | inference | export | distillation

text \<open>
  The fields of \<open>ModelWrapper\<close> that batch preparation and generation read;
  \<open>eos_token_id\<close> is \<open>self.tokenizer.eos_token_id\<close>.
\<close>

record ModelWrapper =
  mode :: Mode
  padding_side :: PaddingSide
  is_encoder_decoder :: bool
  loss_mask :: loss_mask_arg
  use_padding_free_transformer :: bool
  eos_token_id :: int

text \<open>
  The dictionary \<open>prepare_batch\<close> returns: the key \<open>labels\<close> is present in training
  mode only (\<open>None\<close> is the absent key).
\<close>

record batch_dict =
  input_ids :: nested
  attention_mask :: "nested option"
  labels :: "nested option option"

text \<open>
  \<open>prepare_batch\<close>: in training mode the batch is the pair of inputs and outputs, and
  the outputs must not be \<open>None\<close>; in any other mode the batch is the inputs alone (the
  second component is not looked at).
\<close>

definition prepare_batch ::
  "ModelWrapper \<Rightarrow> int list list \<times> int list list option \<Rightarrow> error + batch_dict" where
  "prepare_batch self batch =
     (case (if mode self = training
            then (case snd batch of
                    None \<Rightarrow> Inl (AssertionError ''outputs can't be None during training'')
                  | Some outs \<Rightarrow> Inr (fst batch, Some outs))
            else Inr (fst batch, None)) of
        Inl e \<Rightarrow> Inl e
      | Inr (inputs, outputs) \<Rightarrow>
         (case pad inputs outputs (eos_token_id self) (padding_side self) (is_encoder_decoder self)
                 (loss_mask self) (use_padding_free_transformer self) (- 100) of
            Inl e \<Rightarrow> Inl e
          | Inr (ids, am, lab) \<Rightarrow>
             Inr \<lparr>input_ids = ids, attention_mask = am,
                  labels = (if mode self = training then Some lab else None)\<rparr>))"

text \<open>\<open>t.shape[1]\<close> of a two-dimensional tensor: the length of its rows.\<close>

fun shape1 :: "nested \<Rightarrow> error + nat" where
  "shape1 (Tensor (r # rs)) = Inr (length r)"
| "shape1 (Tensor []) = Inl IndexError"
| "shape1 (PyList rows) = Inl AttributeError"

text \<open>
  \<open>((generated != eos_token_id).sum(dim=-1) + 1).tolist()\<close>, one count for each row.
\<close>

definition num_generated_tokens :: "int list list \<Rightarrow> int \<Rightarrow> int list" where
  "num_generated_tokens generated eos =
     map (\<lambda>row. len (filter (\<lambda>t. t \<noteq> eos) row) + 1) generated"

text \<open>
  \<open>generate\<close>. The underlying model's generation procedure (with the generation keyword
  arguments and the stop token it is given) and the tokenizer's \<open>batch_decode\<close> are
  external: \<open>model_generate\<close> maps the prepared batch to the rows of the generated
  tensor, \<open>decode\<close> maps one row to its text.
\<close>

definition generate ::
  "ModelWrapper \<Rightarrow> (batch_dict \<Rightarrow> int list list) \<Rightarrow> (int list \<Rightarrow> string)
     \<Rightarrow> int list list \<times> int list list option \<Rightarrow> error + (string list \<times> int list)" where
  "generate self model_generate decode batch =
     (if use_padding_free_transformer self
      then Inl (NotImplementedError ''padding free transformer doesn't support generation'')
      else
        (case prepare_batch self batch of
           Inl e \<Rightarrow> Inl e
         | Inr b \<Rightarrow>
            (case (if \<not> is_encoder_decoder self
                   then (case shape1 (input_ids b) of
                           Inl e \<Rightarrow> Inl e
                         | Inr width \<Rightarrow> Inr (map (drop width) (model_generate b)))
                   else Inr (model_generate b)) of
               Inl e \<Rightarrow> Inl e
             | Inr generated \<Rightarrow>
                Inr (map decode generated,
                     num_generated_tokens generated (eos_token_id self)))))"

subsection \<open>\<open>get_model_tflops\<close>, up to the forward term\<close>

text \<open>
  \<open>mlp_flops\<close> after the test on the activation function: \<open>b\<close>, \<open>s\<close>, \<open>h\<close>,
  \<open>f\<close> are Python integers and \<open>glu\<close> is the result of the external
  \<open>is_glu(self.config.activation_function)\<close>.
\<close>

definition mlp_flops :: "int \<Rightarrow> int \<Rightarrow> int \<Rightarrow> int \<Rightarrow> bool \<Rightarrow> int" where
  "mlp_flops b s h f glu =
     (let mlp = 4 * b * s * h * f
      in if glu then mlp + 2 * b * s * h * f else mlp)"

text \<open>
  From \<open>k / n\<close> on the function computes with Python floats, which are IEEE 754 binary64
  numbers. A float is the pair \<open>(m, e)\<close> of integers that stands for \<open>m * 2 ^ e\<close>; the
  results of the operations below are zero, \<open>(0, 0)\<close>, or have a 53-bit \<open>m\<close>. Every
  operation rounds its exact result to the nearest such number, to the one with an even
  \<open>m\<close> at a tie. \<open>FloatRange\<close> stands for a result outside the normal range of
  binary64 (where Python raises OverflowError or continues with infinity or with a
  subnormal number); the embedding does not follow the computation there.
\<close>

type_synonym double = "int \<times> int"

definition double_value :: "double \<Rightarrow> rat" where
  "double_value d =
     (case d of (m, e) \<Rightarrow>
        if 0 \<le> e then of_int m * 2 ^ nat e else of_int m / 2 ^ nat (- e))"

text \<open>The number of binary digits of a positive integer (\<open>int.bit_length\<close>).\<close>

function bit_length :: "int \<Rightarrow> int" where
  "bit_length n = (if n \<le> 0 then 0 else 1 + bit_length (n div 2))"
  by pat_completeness auto
termination
  by (relation "measure nat") auto

definition shift_left :: "int \<Rightarrow> int \<Rightarrow> int" where
  "shift_left x k = (if 0 \<le> k then x * 2 ^ nat k else x)"

text \<open>The quotient of two positive integers rounded to the nearest integer, ties to even.\<close>

definition round_half_even_div :: "int \<Rightarrow> int \<Rightarrow> int" where
  "round_half_even_div num den =
     (let q = num div den; r = num mod den
      in if 2 * r < den then q
         else if den < 2 * r then q + 1
         else if even q then q else q + 1)"

text \<open>
  The float nearest to \<open>p / q\<close> for positive \<open>p\<close> and \<open>q\<close>: \<open>e\<close> is the exponent
  with \<open>2 ^ e \<le> p / q < 2 ^ (e + 1)\<close> and \<open>m\<close> is \<open>p / q\<close> in units of \<open>2 ^ (e - 52)\<close>,
  rounded.
\<close>

definition round_pos :: "int \<Rightarrow> int \<Rightarrow> error + double" where
  "round_pos p q =
     (let e0 = bit_length p - bit_length q;
          e = (if shift_left q e0 \<le> shift_left p (- e0) then e0 else e0 - 1);
          m = round_half_even_div (shift_left p (52 - e)) (shift_left q (e - 52));
          d = (if m = 2 ^ 53 then (2 ^ 52, e - 51) else (m, e - 52))
      in if e < - 1022 \<or> 971 < snd d then Inl FloatRange else Inr d)"

definition to_double :: "int \<Rightarrow> int \<Rightarrow> error + double" where
  "to_double p q =
     (if p = 0 then Inr (0, 0)
      else if 0 < p then round_pos p q
      else (case round_pos (- p) q of Inl e \<Rightarrow> Inl e | Inr (m, e) \<Rightarrow> Inr (- m, e)))"

text \<open>
  The conversion of an integer operand to a float, the true division of two integers
  (correctly rounded in Python), and the sum and product of two floats.
\<close>

definition float_of_int :: "int \<Rightarrow> error + double" where
  "float_of_int i = to_double i 1"

definition int_truediv :: "int \<Rightarrow> int \<Rightarrow> error + double" where
  "int_truediv a b =
     (if b = 0 then Inl ZeroDivisionError
      else if 0 < b then to_double a b else to_double (- a) (- b))"

definition round_scaled :: "int \<Rightarrow> int \<Rightarrow> error + double" where
  "round_scaled p e = to_double (shift_left p e) (shift_left 1 (- e))"

definition float_add :: "double \<Rightarrow> double \<Rightarrow> error + double" where
  "float_add x y =
     (case (x, y) of
        ((m1, e1), (m2, e2)) \<Rightarrow>
          (let e = min e1 e2
           in round_scaled (shift_left m1 (e1 - e) + shift_left m2 (e2 - e)) e))"

definition float_mul :: "double \<Rightarrow> double \<Rightarrow> error + double" where
  "float_mul x y =
     (case (x, y) of ((m1, e1), (m2, e2)) \<Rightarrow> round_scaled (m1 * m2) (e1 + e2))"

definition and_then :: "error + 'a \<Rightarrow> ('a \<Rightarrow> error + 'b) \<Rightarrow> error + 'b" where
  "and_then r f = (case r of Inl e \<Rightarrow> Inl e | Inr v \<Rightarrow> f v)"

text \<open>
  \<open>attention_flops = 4 * b * s * h * (h * (1 + k / n) + s)\<close>, in Python's order of
  evaluation: \<open>4 * b * s * h\<close> is an integer, every other operation has a float operand
  and converts its integer operand first.
\<close>

definition attention_flops :: "int \<Rightarrow> int \<Rightarrow> int \<Rightarrow> int \<Rightarrow> int \<Rightarrow> error + double" where
  "attention_flops b s h n k =
     and_then (int_truediv k n) (\<lambda>ratio.
     and_then (float_of_int 1) (\<lambda>one.
     and_then (float_add one ratio) (\<lambda>t1.
     and_then (float_of_int h) (\<lambda>hf.
     and_then (float_mul hf t1) (\<lambda>t2.
     and_then (float_of_int s) (\<lambda>sf.
     and_then (float_add t2 sf) (\<lambda>t3.
     and_then (float_of_int (4 * b * s * h)) (\<lambda>c.
     float_mul c t3))))))))"

text \<open>\<open>forward_flops = attention_flops + mlp_flops\<close>, a float plus an integer.\<close>

definition forward_flops ::
  "int \<Rightarrow> int \<Rightarrow> int \<Rightarrow> int \<Rightarrow> int \<Rightarrow> int \<Rightarrow> bool \<Rightarrow> error + double" where
  "forward_flops b s h f n k glu =
     and_then (attention_flops b s h n k) (\<lambda>attention.
     and_then (float_of_int (mlp_flops b s h f glu)) (\<lambda>mlp.
     float_add attention mlp))"

subsection \<open>\<open>_override_embedding_forward_with_neft_forward\<close>\<close>






section \<open>Pretraining (pretrain.py)\<close>

subsection \<open>\<open>evaluate\<close>\<close>

text \<open>
  What one process does in \<open>evaluate\<close>, as the list of the calls it makes to its
  collaborators, in order. \<open>'d\<close> is the type of dataloaders.
\<close>

datatype 'd event =
    BroadcastObject
  | ModelEval
  | GetNextBatch 'd
  | ModelForward
  | AllReduceMetrics
  | TrackValMetrics "string option"
  | ModelTrain

datatype eval_result = ReturnsNone | ReturnsMetrics

text \<open>
  The flag \<open>is_val_dataloader_none\<close>. \<open>Communication.broadcast_object\<close> is external:
  it hands every rank of the group the object of the source rank, which is the rank with
  tensor parallel rank 0. For that rank this is its own object; for a sibling it is
  \<open>src_object\<close>, the object the source rank sent.
\<close>

definition is_val_dataloader_none :: "int \<Rightarrow> int \<Rightarrow> bool \<Rightarrow> 'd list option \<Rightarrow> bool" where
  "is_val_dataloader_none tp_world_size tp_rank src_object val_dataloaders =
     (if tp_world_size > 1
      then (if tp_rank = 0
            then (val_dataloaders = None \<or> val_dataloaders = Some [])
            else src_object)
      else (val_dataloaders = None \<or> val_dataloaders = Some []))"

text \<open>
  \<open>evaluate\<close>: the calls made and the outcome. The metric values themselves depend on
  the external model and are not represented. \<open>zip\<close> over a \<open>None\<close> dataloader list
  raises TypeError; \<open>return metrics_tracker\<close> after a loop that never ran raises
  UnboundLocalError.
\<close>

definition evaluate ::
  "int \<Rightarrow> int \<Rightarrow> bool \<Rightarrow> 'd list option \<Rightarrow> int \<Rightarrow> string option list
     \<Rightarrow> 'd event list \<times> (error + eval_result)" where
  "evaluate tp_world_size tp_rank src_object val_dataloaders eval_steps group_names =
     (let communication = (if tp_world_size > 1 then [BroadcastObject] else [])
      in if is_val_dataloader_none tp_world_size tp_rank src_object val_dataloaders
         then (communication, Inr ReturnsNone)
         else
           (case val_dataloaders of
              None \<Rightarrow> (communication @ [ModelEval], Inl TypeError)
            | Some dataloaders \<Rightarrow>
               (let groups = zip group_names dataloaders;
                    calls =
                      concat (map (\<lambda>(group_name, val_dataloader).
                                     concat (replicate (nat eval_steps)
                                               [GetNextBatch val_dataloader, ModelForward])
                                     @ [AllReduceMetrics, TrackValMetrics group_name])
                               groups)
                in (communication @ [ModelEval] @ calls @ [ModelTrain],
                    if groups = [] then Inl UnboundLocalError else Inr ReturnsMetrics))))"

subsection \<open>Resuming from a checkpoint in \<open>main\<close>\<close>

record LoadArgs =
  load_dataloader_state :: bool

text \<open>
  The part of \<open>main\<close> between the creation of the scheduler and the creation of the
  dataloaders. \<open>load_checkpoint_for_training\<close> is external; \<open>loaded\<close> is the triple it
  returns (starting iteration, metadata dictionary or \<open>None\<close>, experiments tracker
  state). The result is the starting iteration handed to \<open>train\<close>, the metadata, the
  tracker state and the consumed-samples argument of \<open>get_megatron_gpt_dataloaders\<close>;
  reading a missing dictionary key raises KeyError.
\<close>

definition main_resume ::
  "LoadArgs option \<Rightarrow> int \<times> (string \<rightharpoonup> int) option \<times> 'e option
     \<Rightarrow> error + (int \<times> (string \<rightharpoonup> int) option \<times> 'e option \<times> int)" where
  "main_resume load_args loaded =
     (let (starting_iteration, metadata, experiments_tracker_state_dict) =
            (case load_args of
               None \<Rightarrow> (0, None, None)
             | Some la \<Rightarrow>
                (case loaded of
                   (it, md, st) \<Rightarrow>
                     (it,
                      (case md of
                         None \<Rightarrow> None
                       | Some m \<Rightarrow>
                          (if \<not> load_dataloader_state la
                           then Some (m(''consumed_samples'' \<mapsto> 0))
                           else Some m)),
                      st)))
      in (case metadata of
            None \<Rightarrow> Inr (starting_iteration, metadata, experiments_tracker_state_dict, 0)
          | Some m \<Rightarrow>
             (case m ''consumed_samples'' of
                None \<Rightarrow> Inl (KeyError ''consumed_samples'')
              | Some consumed_samples \<Rightarrow>
                 Inr (starting_iteration, metadata, experiments_tracker_state_dict,
                      consumed_samples))))"

section \<open>Properties of \<open>_pad\<close>\<close>

lemma py_repeat_diff: "py_repeat x (len a - len b) = replicate (length a - length b) x"
  by (simp add: py_repeat_def nat_diff_distrib')

lemma max_len_empty: "max_len [] = Inl MaxOfEmpty"
  by (simp add: max_len_def)

lemma max_len_nonempty: "rows \<noteq> [] \<Longrightarrow> max_len rows = Inr (Max (set (map len rows)))"
proof (cases rows)
  case Nil
  assume "rows \<noteq> []"
  with Nil show ?thesis by simp
next
  case (Cons r rs)
  have "fold max (map len rs) (len r) = Max (set (len r # map len rs))"
    by (rule Max.set_eq_fold [symmetric])
  with Cons show ?thesis by (simp add: max_len_def)
qed

lemma max_len_bound:
  assumes "max_len rows = Inr M" and "a \<in> set rows"
  shows "len a \<le> M"
proof -
  from assms(2) have ne: "rows \<noteq> []" by auto
  with assms(1) have "M = Max (set (map len rows))"
    by (simp add: max_len_nonempty)
  with assms(2) show ?thesis by simp
qed

lemma max_len_attained:
  assumes "max_len rows = Inr M"
  shows "\<exists>a\<in>set rows. len a = M"
proof -
  from assms have ne: "rows \<noteq> []" by (auto simp: max_len_empty)
  with assms have "M = Max (set (map len rows))"
    by (simp add: max_len_nonempty)
  moreover from ne have "Max (set (map len rows)) \<in> set (map len rows)"
    by (intro Max_in) simp_all
  ultimately show ?thesis by auto
qed

lemma rectangularI: "(\<And>r. r \<in> set rows \<Longrightarrow> length r = n) \<Longrightarrow> rectangular rows"
  by (cases rows) (simp_all add: rectangular_def list_all_iff)

lemma rectangular_iff:
  "rectangular rows \<longleftrightarrow> (\<forall>a\<in>set rows. \<forall>b\<in>set rows. length a = length b)"
  by (cases rows) (auto simp: rectangular_def list_all_iff)

lemma all_empty_replicate: "\<forall>r\<in>set rows. r = [] \<Longrightarrow> replicate (length rows) [] = rows"
  by (induction rows) auto

lemma torch_tensor_ok:
  assumes len: "\<And>r. r \<in> set rows \<Longrightarrow> length r = n"
    and fits: "\<And>r v. r \<in> set rows \<Longrightarrow> v \<in> set r \<Longrightarrow> fits_int64 v"
  shows "torch_tensor rows = Inr (Tensor rows)"
proof (cases rows)
  case Nil
  then show ?thesis by (simp add: torch_tensor_def)
next
  case (Cons r rs)
  show ?thesis
  proof (cases "r = []")
    case True
    with Cons len [of r] have "n = 0" by simp
    with len have "\<forall>q\<in>set rows. q = []" by simp
    then have "replicate (length rows) [] = rows" by (rule all_empty_replicate)
    with Cons True show ?thesis by (simp add: torch_tensor_def)
  next
    case False
    from len have "rectangular rows" by (rule rectangularI)
    moreover from fits have "list_all (list_all fits_int64) rows"
      by (simp add: list_all_iff)
    ultimately show ?thesis using Cons False by (simp add: torch_tensor_def)
  qed
qed

lemma torch_tensor_Inr:
  assumes "torch_tensor rows = Inr t"
  shows "(rows \<noteq> [] \<and> hd rows = [] \<and> t = Tensor (replicate (length rows) []))
           \<or> (t = Tensor rows \<and> rectangular rows)"
  using assms
  by (cases rows) (auto simp: torch_tensor_def rectangular_def split: if_splits)

lemma torch_tensor_rect:
  assumes t: "torch_tensor rows = Inr t" and r: "rectangular rows"
  shows "t = Tensor rows"
  using torch_tensor_Inr [OF t]
proof
  assume a: "rows \<noteq> [] \<and> hd rows = [] \<and> t = Tensor (replicate (length rows) [])"
  then obtain rs where rows: "rows = [] # rs" by (cases rows) auto
  have "\<forall>q\<in>set rows. q = []"
  proof
    fix q assume "q \<in> set rows"
    with r rows have "length q = length ([] :: int list)"
      unfolding rectangular_iff by auto
    then show "q = []" by simp
  qed
  then have "replicate (length rows) [] = rows" by (rule all_empty_replicate)
  with a show ?thesis by simp
next
  assume "t = Tensor rows \<and> rectangular rows"
  then show ?thesis by simp
qed





lemma fits_int64_bit [simp]: "fits_int64 0" "fits_int64 1"
  by (simp_all add: fits_int64_def)

lemma length_py_repeat [simp]: "length (py_repeat x n) = nat n"
  by (simp add: py_repeat_def)

lemma sum_list_py_repeat: "sum_list (py_repeat (c::int) n) = int (nat n) * c"
  by (simp add: py_repeat_def sum_list_replicate)

text \<open>
  Claim C2. In padding-free mode a decoder-only batch with loss mask \<open>output_only\<close> gets,
  for each pair of an input and an output, the labels row made of
  \<open>len(input) - len(output)\<close> copies of the sentinel followed by the output itself (no
  copy when the difference is negative); the input \<open>[1,2,3,4,5]\<close> with output \<open>[4,5]\<close>
  and sentinel \<open>-100\<close> gives \<open>[-100,-100,-100,4,5]\<close>. With \<open>no_mask\<close> the labels are
  the inputs, and any other loss-mask value raises a ValueError whose message names the
  value.
\<close>

theorem pad_packed_labels:
  "(\<exists>rows. pad inputs (Some outs) p side False (Policy output_only) True m
             = Inr (PyList inputs, None, Some (PyList rows))
          \<and> length rows = min (length inputs) (length outs)
          \<and> (\<forall>i<length rows.
                rows ! i = replicate (length (inputs ! i) - length (outs ! i)) m @ outs ! i))
   \<and> pad [[1, 2, 3, 4, 5]] (Some [[4, 5]]) p side False (Policy output_only) True (- 100)
       = Inr (PyList [[1, 2, 3, 4, 5]], None, Some (PyList [[- 100, - 100, - 100, 4, 5]]))
   \<and> pad inputs outputs p side False (Policy no_mask) True m
       = Inr (PyList inputs, None, Some (PyList inputs))
   \<and> pad inputs outputs p side False (NotAPolicy s) True m
       = Inl (ValueError (''unexpected loss_mask ('' @ s @ '')''))"
proof -
  let ?rows = "map (\<lambda>(array_in, array_out).
                      py_repeat m (len array_in - len array_out) @ array_out) (zip inputs outs)"
  have A: "pad inputs (Some outs) p side False (Policy output_only) True m
             = Inr (PyList inputs, None, Some (PyList ?rows))"
    by (simp add: pad_def pad_lists_def)
  have B: "length ?rows = min (length inputs) (length outs)"
    by simp
  have C: "\<forall>i<length ?rows.
             ?rows ! i = replicate (length (inputs ! i) - length (outs ! i)) m @ outs ! i"
    by (simp add: py_repeat_diff)
  have D: "pad [[1, 2, 3, 4, 5]] (Some [[4, 5]]) p side False (Policy output_only) True (- 100)
       = Inr (PyList [[1, 2, 3, 4, 5]], None, Some (PyList [[- 100, - 100, - 100, 4, 5]]))"
    by (simp add: pad_def pad_lists_def py_repeat_def eval_nat_numeral)
  have E: "pad inputs outputs p side False (Policy no_mask) True m
       = Inr (PyList inputs, None, Some (PyList inputs))"
    by (simp add: pad_def pad_lists_def)
  have F: "pad inputs outputs p side False (NotAPolicy s) True m
       = Inl (ValueError (''unexpected loss_mask ('' @ s @ '')''))"
    by (simp add: pad_def pad_lists_def)
  from A B C D E F show ?thesis by blast
qed

theorem pad_packed_labels_witness:
  "\<exists>rows. pad [[1, 2, 3], [4]] (Some [[3], [4, 5]]) 0 right False (Policy output_only) True (- 100)
            = Inr (PyList [[1, 2, 3], [4]], None, Some (PyList rows))
         \<and> length rows = 2 \<and> rows ! 0 = [- 100, - 100, 3] \<and> rows ! 1 = [4, 5]"
proof -
  from pad_packed_labels [of "[[1, 2, 3], [4]]" "[[3], [4, 5]]" 0 right "- 100"]
  obtain rows where
    r: "pad [[1, 2, 3], [4]] (Some [[3], [4, 5]]) 0 right False (Policy output_only) True (- 100)
          = Inr (PyList [[1, 2, 3], [4]], None, Some (PyList rows))"
    and l: "length rows = min (length [[1, 2, 3], [4::int]]) (length [[3], [4, 5::int]])"
    and n: "\<forall>i<length rows. rows ! i
              = replicate (length ([[1, 2, 3], [4::int]] ! i) - length ([[3], [4, 5::int]] ! i)) (- 100)
                @ [[3], [4, 5]] ! i"
    by blast
  from l have l2: "length rows = 2" by simp
  from n l2 have "rows ! 0 = [- 100, - 100, 3]" by (simp add: eval_nat_numeral)
  moreover from n l2 have "rows ! 1 = [4, 5]" by simp
  ultimately show ?thesis using r l2 by blast
qed

lemma pad_tensorize:
  assumes "pad_lists inputs outputs p side enc lm False m = Inr (ids, Some am, labs)"
    and "torch_tensor ids = Inr (Tensor ids)"
    and "torch_tensor am = Inr (Tensor am)"
    and "\<And>rows. labs = Some rows \<Longrightarrow> torch_tensor rows = Inr (Tensor rows)"
  shows "pad inputs outputs p side enc lm False m
           = Inr (Tensor ids, Some (Tensor am), map_option Tensor labs)"
  using assms by (cases labs) (simp_all add: pad_def)

lemma pad_width:
  "len a \<le> M \<Longrightarrow> length a + nat (M - len a) = nat M"
  "len a \<le> M \<Longrightarrow> nat (M - len a) + length a = nat M"
  by linarith+

lemma set_py_repeat_eq: "set (py_repeat x n) = (if n \<le> 0 then {} else {x})"
  by (auto simp: py_repeat_def)

lemma pad_lists_right_output_only:
  assumes "max_len inputs = Inr M"
  shows "pad_lists inputs (Some outs) p right False (Policy output_only) False m
           = Inr (map (\<lambda>a. a @ py_repeat p (M - len a)) inputs,
                  Some (map (\<lambda>a. py_repeat 1 (len a) @ py_repeat 0 (M - len a)) inputs),
                  Some (map (\<lambda>(a, b). py_repeat m (len a - len b) @ b @ py_repeat m (M - len a))
                         (zip inputs outs)))"
  using assms by (simp add: pad_lists_def)

lemma input_ids_tensor:
  assumes M: "max_len inputs = Inr M"
    and fi: "list_all (list_all fits_int64) inputs" and fp: "fits_int64 p"
  shows "torch_tensor (map (\<lambda>a. a @ py_repeat p (M - len a)) inputs)
           = Inr (Tensor (map (\<lambda>a. a @ py_repeat p (M - len a)) inputs))"
    and "torch_tensor (map (\<lambda>a. py_repeat p (M - len a) @ a) inputs)
           = Inr (Tensor (map (\<lambda>a. py_repeat p (M - len a) @ a) inputs))"
proof -
  have b: "\<And>a. a \<in> set inputs \<Longrightarrow> len a \<le> M"
    using M by (rule max_len_bound)
  show "torch_tensor (map (\<lambda>a. a @ py_repeat p (M - len a)) inputs)
           = Inr (Tensor (map (\<lambda>a. a @ py_repeat p (M - len a)) inputs))"
  proof (rule torch_tensor_ok [where n = "nat M"])
    fix r assume "r \<in> set (map (\<lambda>a. a @ py_repeat p (M - len a)) inputs)"
    then show "length r = nat M" using b by (auto simp: pad_width)
  next
    fix r v assume "r \<in> set (map (\<lambda>a. a @ py_repeat p (M - len a)) inputs)" "v \<in> set r"
    then show "fits_int64 v" using fi fp
      by (auto simp: set_py_repeat_eq list_all_iff split: if_splits)
  qed
  show "torch_tensor (map (\<lambda>a. py_repeat p (M - len a) @ a) inputs)
           = Inr (Tensor (map (\<lambda>a. py_repeat p (M - len a) @ a) inputs))"
  proof (rule torch_tensor_ok [where n = "nat M"])
    fix r assume "r \<in> set (map (\<lambda>a. py_repeat p (M - len a) @ a) inputs)"
    then show "length r = nat M" using b by (auto simp: pad_width)
  next
    fix r v assume "r \<in> set (map (\<lambda>a. py_repeat p (M - len a) @ a) inputs)" "v \<in> set r"
    then show "fits_int64 v" using fi fp
      by (auto simp: set_py_repeat_eq list_all_iff split: if_splits)
  qed
qed

lemma attention_mask_tensor:
  assumes M: "max_len inputs = Inr M"
  shows "torch_tensor (map (\<lambda>a. py_repeat 1 (len a) @ py_repeat 0 (M - len a)) inputs)
           = Inr (Tensor (map (\<lambda>a. py_repeat 1 (len a) @ py_repeat 0 (M - len a)) inputs))"
    and "torch_tensor (map (\<lambda>a. py_repeat 0 (M - len a) @ py_repeat 1 (len a)) inputs)
           = Inr (Tensor (map (\<lambda>a. py_repeat 0 (M - len a) @ py_repeat 1 (len a)) inputs))"
proof -
  have b: "\<And>a. a \<in> set inputs \<Longrightarrow> len a \<le> M"
    using M by (rule max_len_bound)
  show "torch_tensor (map (\<lambda>a. py_repeat 1 (len a) @ py_repeat 0 (M - len a)) inputs)
           = Inr (Tensor (map (\<lambda>a. py_repeat 1 (len a) @ py_repeat 0 (M - len a)) inputs))"
  proof (rule torch_tensor_ok [where n = "nat M"])
    fix r assume "r \<in> set (map (\<lambda>a. py_repeat (1 :: int) (len a) @ py_repeat 0 (M - len a)) inputs)"
    then show "length r = nat M" using b by (auto simp: pad_width)
  next
    fix r v
    assume "r \<in> set (map (\<lambda>a. py_repeat (1 :: int) (len a) @ py_repeat 0 (M - len a)) inputs)" "v \<in> set r"
    then show "fits_int64 v" by (auto simp: set_py_repeat_eq split: if_splits)
  qed
  show "torch_tensor (map (\<lambda>a. py_repeat 0 (M - len a) @ py_repeat 1 (len a)) inputs)
           = Inr (Tensor (map (\<lambda>a. py_repeat 0 (M - len a) @ py_repeat 1 (len a)) inputs))"
  proof (rule torch_tensor_ok [where n = "nat M"])
    fix r assume "r \<in> set (map (\<lambda>a. py_repeat (0 :: int) (M - len a) @ py_repeat 1 (len a)) inputs)"
    then show "length r = nat M" using b by (auto simp: pad_width)
  next
    fix r v
    assume "r \<in> set (map (\<lambda>a. py_repeat (0 :: int) (M - len a) @ py_repeat 1 (len a)) inputs)" "v \<in> set r"
    then show "fits_int64 v" by (auto simp: set_py_repeat_eq split: if_splits)
  qed
qed


lemma label_row_right:
  assumes "length b \<le> length a" and "len a \<le> Mi"
  shows "length (py_repeat m (len a - len b) @ b @ py_repeat m (Mi - len a)) = nat Mi"
    and "\<forall>j<length a - length b.
           (py_repeat m (len a - len b) @ b @ py_repeat m (Mi - len a)) ! j = m"
    and "\<forall>j<length b.
           (py_repeat m (len a - len b) @ b @ py_repeat m (Mi - len a))
             ! (length a - length b + j) = b ! j"
    and "\<forall>j. length a \<le> j \<and> j < nat Mi \<longrightarrow>
           (py_repeat m (len a - len b) @ b @ py_repeat m (Mi - len a)) ! j = m"
proof -
  have r1: "py_repeat m (len a - len b) = replicate (length a - length b) m"
    by (rule py_repeat_diff)
  have r2: "py_repeat m (Mi - len a) = replicate (nat Mi - length a) m"
    using assms(2) by (simp add: py_repeat_def nat_diff_distrib')
  from assms show "length (py_repeat m (len a - len b) @ b @ py_repeat m (Mi - len a)) = nat Mi"
    unfolding r1 r2 by simp
  show "\<forall>j<length a - length b.
           (py_repeat m (len a - len b) @ b @ py_repeat m (Mi - len a)) ! j = m"
    unfolding r1 r2 by (simp add: nth_append)
  show "\<forall>j<length b.
           (py_repeat m (len a - len b) @ b @ py_repeat m (Mi - len a))
             ! (length a - length b + j) = b ! j"
    unfolding r1 r2 by (simp add: nth_append)
  from assms show "\<forall>j. length a \<le> j \<and> j < nat Mi \<longrightarrow>
           (py_repeat m (len a - len b) @ b @ py_repeat m (Mi - len a)) ! j = m"
    unfolding r1 r2 by (auto simp: nth_append)
qed

text \<open>
  Claim C1 (as amended). For a decoder-only batch that is not padding-free, padded on the
  right with loss mask \<open>output_only\<close>, with at least one row, token ids in the range
  of 64-bit integers and no output longer than its input: \<open>_pad\<close> returns, and each
  labels row has the length \<open>max_length\<close> (the greatest input length), holds the
  sentinel at the positions before \<open>len(input) - len(output)\<close> and from
  \<open>len(input)\<close> on, and the output at the positions in between.
\<close>

theorem pad_right_output_only_labels:
  assumes ne: "inputs \<noteq> []"
    and le: "\<forall>i<min (length inputs) (length outs). length (outs ! i) \<le> length (inputs ! i)"
    and fi: "list_all (list_all fits_int64) inputs"
    and fo: "list_all (list_all fits_int64) outs"
    and fp: "fits_int64 p" and fm: "fits_int64 m"
  shows "\<exists>ids am rows M.
            pad inputs (Some outs) p right False (Policy output_only) False m
              = Inr (ids, am, Some (Tensor rows))
          \<and> max_len inputs = Inr (int M)
          \<and> length rows = min (length inputs) (length outs)
          \<and> (\<forall>i<length rows.
                length (rows ! i) = M
              \<and> (\<forall>j<length (inputs ! i) - length (outs ! i). rows ! i ! j = m)
              \<and> (\<forall>j<length (outs ! i).
                    rows ! i ! (length (inputs ! i) - length (outs ! i) + j) = outs ! i ! j)
              \<and> (\<forall>j. length (inputs ! i) \<le> j \<and> j < M \<longrightarrow> rows ! i ! j = m))"
proof -
  let ?Mi = "Max (set (map len inputs))"
  let ?row = "\<lambda>(a, b). py_repeat m (len a - len b) @ b @ py_repeat m (?Mi - len a)"
  let ?rows = "map ?row (zip inputs outs)"
  let ?ids = "map (\<lambda>a. a @ py_repeat p (?Mi - len a)) inputs"
  let ?am = "map (\<lambda>a. py_repeat 1 (len a) @ py_repeat 0 (?Mi - len a)) inputs"
  from ne have M: "max_len inputs = Inr ?Mi" by (rule max_len_nonempty)
  from M obtain a0 where "a0 \<in> set inputs" "len a0 = ?Mi"
    using max_len_attained by blast
  then have M0: "int (nat ?Mi) = ?Mi" by simp
  have bound: "\<And>a. a \<in> set inputs \<Longrightarrow> len a \<le> ?Mi"
    using M by (rule max_len_bound)
  have len_rows: "length ?rows = min (length inputs) (length outs)" by simp
  have row: "?rows ! i = ?row (inputs ! i, outs ! i)" if "i < length ?rows" for i
    using that by simp
  have pair: "length (outs ! i) \<le> length (inputs ! i) \<and> len (inputs ! i) \<le> ?Mi"
    if "i < length ?rows" for i
    using that le bound by simp
  have props: "length (?rows ! i) = nat ?Mi
      \<and> (\<forall>j<length (inputs ! i) - length (outs ! i). ?rows ! i ! j = m)
      \<and> (\<forall>j<length (outs ! i).
            ?rows ! i ! (length (inputs ! i) - length (outs ! i) + j) = outs ! i ! j)
      \<and> (\<forall>j. length (inputs ! i) \<le> j \<and> j < nat ?Mi \<longrightarrow> ?rows ! i ! j = m)"
    if i: "i < length ?rows" for i
  proof -
    from pair [OF i] have l: "length (outs ! i) \<le> length (inputs ! i)"
      and b: "len (inputs ! i) \<le> ?Mi" by simp_all
    show ?thesis
      unfolding row [OF i] prod.case
      using label_row_right [OF l b, of m] by blast
  qed
  have t_rows: "torch_tensor ?rows = Inr (Tensor ?rows)"
  proof (rule torch_tensor_ok [where n = "nat ?Mi"])
    fix r assume "r \<in> set ?rows"
    then obtain i where "i < length ?rows" "r = ?rows ! i"
      unfolding in_set_conv_nth by blast
    with props show "length r = nat ?Mi" by blast
  next
    fix r v assume "r \<in> set ?rows" "v \<in> set r"
    then obtain a b where "(a, b) \<in> set (zip inputs outs)"
      and "v \<in> set (py_repeat m (len a - len b) @ b @ py_repeat m (?Mi - len a))"
      by auto
    moreover then have "b \<in> set outs" by (auto dest: set_zip_rightD)
    ultimately show "fits_int64 v" using fo fm
      by (auto simp: set_py_repeat_eq list_all_iff split: if_splits)
  qed
  have lab: "torch_tensor rows' = Inr (Tensor rows')" if "Some ?rows = Some rows'" for rows'
    using that t_rows by auto
  have "pad inputs (Some outs) p right False (Policy output_only) False m
          = Inr (Tensor ?ids, Some (Tensor ?am), map_option Tensor (Some ?rows))"
    by (rule pad_tensorize [OF pad_lists_right_output_only [OF M]
                               input_ids_tensor(1) [OF M fi fp] attention_mask_tensor(1) [OF M]
                               lab])
  then have P: "pad inputs (Some outs) p right False (Policy output_only) False m
          = Inr (Tensor ?ids, Some (Tensor ?am), Some (Tensor ?rows))"
    by simp
  from M M0 have M': "max_len inputs = Inr (int (nat ?Mi))" by simp
  have all: "\<forall>i<length ?rows.
                length (?rows ! i) = nat ?Mi
              \<and> (\<forall>j<length (inputs ! i) - length (outs ! i). ?rows ! i ! j = m)
              \<and> (\<forall>j<length (outs ! i).
                    ?rows ! i ! (length (inputs ! i) - length (outs ! i) + j) = outs ! i ! j)
              \<and> (\<forall>j. length (inputs ! i) \<le> j \<and> j < nat ?Mi \<longrightarrow> ?rows ! i ! j = m)"
    using props by (intro allI impI)
  from P M' len_rows all
  have "pad inputs (Some outs) p right False (Policy output_only) False m
              = Inr (Tensor ?ids, Some (Tensor ?am), Some (Tensor ?rows))
          \<and> max_len inputs = Inr (int (nat ?Mi))
          \<and> length ?rows = min (length inputs) (length outs)
          \<and> (\<forall>i<length ?rows.
                length (?rows ! i) = nat ?Mi
              \<and> (\<forall>j<length (inputs ! i) - length (outs ! i). ?rows ! i ! j = m)
              \<and> (\<forall>j<length (outs ! i).
                    ?rows ! i ! (length (inputs ! i) - length (outs ! i) + j) = outs ! i ! j)
              \<and> (\<forall>j. length (inputs ! i) \<le> j \<and> j < nat ?Mi \<longrightarrow> ?rows ! i ! j = m))"
    by (intro conjI)
  then show ?thesis
    by - (rule exI, rule exI, rule exI, rule exI, assumption)
qed

theorem pad_right_output_only_labels_witness:
  "pad [[1, 2, 3, 4, 5], [1, 2]] (Some [[4, 5], [2]]) 0 right False (Policy output_only) False (- 100)
     = Inr (Tensor [[1, 2, 3, 4, 5], [1, 2, 0, 0, 0]],
            Some (Tensor [[1, 1, 1, 1, 1], [1, 1, 0, 0, 0]]),
            Some (Tensor [[- 100, - 100, - 100, 4, 5], [- 100, 2, - 100, - 100, - 100]]))
   \<and> (\<exists>ids am rows M.
          pad [[1, 2, 3, 4, 5], [1, 2]] (Some [[4, 5], [2]]) 0 right False (Policy output_only)
              False (- 100)
            = Inr (ids, am, Some (Tensor rows))
        \<and> max_len [[1, 2, 3, 4, 5], [1, 2 :: int]] = Inr (int M)
        \<and> length rows = min (length [[1, 2, 3, 4, 5], [1, 2 :: int]]) (length [[4, 5], [2 :: int]])
        \<and> (\<forall>i<length rows.
              length (rows ! i) = M
            \<and> (\<forall>j<length ([[1, 2, 3, 4, 5], [1, 2 :: int]] ! i) - length ([[4, 5], [2 :: int]] ! i).
                  rows ! i ! j = - 100)
            \<and> (\<forall>j<length ([[4, 5], [2 :: int]] ! i).
                  rows ! i ! (length ([[1, 2, 3, 4, 5], [1, 2 :: int]] ! i)
                                - length ([[4, 5], [2 :: int]] ! i) + j)
                    = [[4, 5], [2]] ! i ! j)
            \<and> (\<forall>j. length ([[1, 2, 3, 4, 5], [1, 2 :: int]] ! i) \<le> j \<and> j < M
                    \<longrightarrow> rows ! i ! j = - 100)))"
proof -
  have ne: "[[1, 2, 3, 4, 5], [1, 2 :: int]] \<noteq> []" by simp
  have le: "\<forall>i<min (length [[1, 2, 3, 4, 5], [1, 2 :: int]]) (length [[4, 5], [2 :: int]]).
              length ([[4, 5], [2 :: int]] ! i) \<le> length ([[1, 2, 3, 4, 5], [1, 2 :: int]] ! i)"
    by (simp add: less_Suc_eq numeral_2_eq_2)
  have fi: "list_all (list_all fits_int64) [[1, 2, 3, 4, 5], [1, 2]]"
    by (simp add: fits_int64_def)
  have fo: "list_all (list_all fits_int64) [[4, 5], [2]]"
    by (simp add: fits_int64_def)
  have fp: "fits_int64 0" and fm: "fits_int64 (- 100)"
    by (simp_all add: fits_int64_def)
  have v: "pad [[1, 2, 3, 4, 5], [1, 2]] (Some [[4, 5], [2]]) 0 right False (Policy output_only)
               False (- 100)
     = Inr (Tensor [[1, 2, 3, 4, 5], [1, 2, 0, 0, 0]],
            Some (Tensor [[1, 1, 1, 1, 1], [1, 1, 0, 0, 0]]),
            Some (Tensor [[- 100, - 100, - 100, 4, 5], [- 100, 2, - 100, - 100, - 100]]))"
    by code_simp
  from v pad_right_output_only_labels [OF ne le fi fo fp fm] show ?thesis
    by (rule conjI)
qed

theorem pad_right_output_only_labels_counterexample:
  "pad [[1]] (Some [[2, 3]]) 0 right False (Policy output_only) False (- 100)
     = Inr (Tensor [[1]], Some (Tensor [[1]]), Some (Tensor [[2, 3]]))
   \<and> max_len [[1 :: int]] = Inr 1
   \<and> length [2, 3 :: int] \<noteq> 1"
  by code_simp

lemma pad_lists_encoder_decoder_Inr:
  assumes "pad_lists inputs outputs p side True lm packed m = Inr (ids, am, labs)"
  shows "\<exists>M. max_len inputs = Inr M
           \<and> ids = (if side = left
                    then map (\<lambda>a. py_repeat p (M - len a) @ a) inputs
                    else map (\<lambda>a. a @ py_repeat p (M - len a)) inputs)
           \<and> am = Some (if side = left
                         then map (\<lambda>a. py_repeat 0 (M - len a) @ py_repeat 1 (len a)) inputs
                         else map (\<lambda>a. py_repeat 1 (len a) @ py_repeat 0 (M - len a)) inputs)
           \<and> (case outputs of
                 None \<Rightarrow> labs = None
               | Some outs \<Rightarrow>
                   lm = Policy output_only
                 \<and> (\<exists>Mo. max_len outs = Inr Mo
                          \<and> labs = Some (map (\<lambda>a. a @ py_repeat m (Mo - len a)) outs)))"
  using assms
  by (auto simp: pad_lists_def Let_def split: sum.splits option.splits if_splits)

lemma pad_Inr_lists:
  assumes "pad inputs outputs p side enc lm packed m = Inr (ids, am, labs)"
  shows "\<exists>ids' am' labs'.
            pad_lists inputs outputs p side enc lm packed m = Inr (ids', am', labs')
          \<and> (if packed
               then ids = PyList ids' \<and> am = map_option PyList am'
                    \<and> labs = map_option PyList labs'
               else torch_tensor ids' = Inr ids
                    \<and> (\<exists>a t. am' = Some a \<and> torch_tensor a = Inr t \<and> am = Some t)
                    \<and> (case labs' of
                          None \<Rightarrow> labs = None
                        | Some l \<Rightarrow> \<exists>t. torch_tensor l = Inr t \<and> labs = Some t))"
proof (cases "pad_lists inputs outputs p side enc lm packed m")
  case (Inl e)
  with assms show ?thesis by (simp add: pad_def)
next
  case (Inr tr)
  obtain i' a' l' where tr: "tr = (i', a', l')" by (cases tr)
  with Inr have L: "pad_lists inputs outputs p side enc lm packed m = Inr (i', a', l')"
    by simp
  have "if packed
        then ids = PyList i' \<and> am = map_option PyList a' \<and> labs = map_option PyList l'
        else torch_tensor i' = Inr ids
             \<and> (\<exists>a t. a' = Some a \<and> torch_tensor a = Inr t \<and> am = Some t)
             \<and> (case l' of
                   None \<Rightarrow> labs = None
                 | Some l \<Rightarrow> \<exists>t. torch_tensor l = Inr t \<and> labs = Some t)"
    using assms L
    by (cases packed) (auto simp: pad_def split: sum.splits option.splits)
  with L show ?thesis by blast
qed

lemma labels_tensor_right:
  assumes M: "max_len outs = Inr Mo"
    and fo: "list_all (list_all fits_int64) outs" and fm: "fits_int64 m"
  shows "torch_tensor (map (\<lambda>a. a @ py_repeat m (Mo - len a)) outs)
           = Inr (Tensor (map (\<lambda>a. a @ py_repeat m (Mo - len a)) outs))"
  using M fo fm by (rule input_ids_tensor(1))

lemma pad_lists_encoder_decoder_value:
  assumes "max_len inputs = Inr M"
    and "case outputs of None \<Rightarrow> True
         | Some outs \<Rightarrow> lm = Policy output_only \<and> outs \<noteq> []"
  shows "pad_lists inputs outputs p side True lm packed m
           = Inr (if side = left
                  then map (\<lambda>a. py_repeat p (M - len a) @ a) inputs
                  else map (\<lambda>a. a @ py_repeat p (M - len a)) inputs,
                  Some (if side = left
                        then map (\<lambda>a. py_repeat 0 (M - len a) @ py_repeat 1 (len a)) inputs
                        else map (\<lambda>a. py_repeat 1 (len a) @ py_repeat 0 (M - len a)) inputs),
                  map_option
                    (\<lambda>outs. map (\<lambda>a. a @ py_repeat m (Max (set (map len outs)) - len a)) outs)
                    outputs)"
  using assms
  by (cases outputs) (simp_all add: pad_lists_def Let_def max_len_nonempty)

lemma pad_encoder_decoder_returns:
  assumes ne: "inputs \<noteq> []"
    and fi: "list_all (list_all fits_int64) inputs" and fp: "fits_int64 p"
    and out: "case outputs of None \<Rightarrow> True
              | Some outs \<Rightarrow> lm = Policy output_only \<and> outs \<noteq> []
                    \<and> list_all (list_all fits_int64) outs \<and> fits_int64 m"
  shows "\<exists>ids am labs. pad inputs outputs p side True lm False m = Inr (ids, am, labs)"
proof -
  let ?M = "Max (set (map len inputs))"
  from ne have M: "max_len inputs = Inr ?M" by (rule max_len_nonempty)
  from out have out': "case outputs of None \<Rightarrow> True
         | Some outs \<Rightarrow> lm = Policy output_only \<and> outs \<noteq> []"
    by (simp split: option.splits)
  note L = pad_lists_encoder_decoder_value [OF M out', of p side False m]
  have lab: "torch_tensor rows = Inr (Tensor rows)"
    if "map_option
          (\<lambda>outs. map (\<lambda>a. a @ py_repeat m (Max (set (map len outs)) - len a)) outs) outputs
        = Some rows" for rows
  proof -
    from that obtain outs where o: "outputs = Some outs"
      and r: "rows = map (\<lambda>a. a @ py_repeat m (Max (set (map len outs)) - len a)) outs"
      by (cases outputs) auto
    from o out have "outs \<noteq> []" "list_all (list_all fits_int64) outs" "fits_int64 m"
      by simp_all
    then show ?thesis
      unfolding r by (intro labels_tensor_right max_len_nonempty)
  qed
  show ?thesis
  proof (cases "side = left")
    case True
    with L have L': "pad_lists inputs outputs p side True lm False m
           = Inr (map (\<lambda>a. py_repeat p (?M - len a) @ a) inputs,
                  Some (map (\<lambda>a. py_repeat 0 (?M - len a) @ py_repeat 1 (len a)) inputs),
                  map_option
                    (\<lambda>outs. map (\<lambda>a. a @ py_repeat m (Max (set (map len outs)) - len a)) outs)
                    outputs)"
      by simp
    from pad_tensorize [OF L' input_ids_tensor(2) [OF M fi fp] attention_mask_tensor(2) [OF M] lab]
    show ?thesis by blast
  next
    case False
    with L have L': "pad_lists inputs outputs p side True lm False m
           = Inr (map (\<lambda>a. a @ py_repeat p (?M - len a)) inputs,
                  Some (map (\<lambda>a. py_repeat 1 (len a) @ py_repeat 0 (?M - len a)) inputs),
                  map_option
                    (\<lambda>outs. map (\<lambda>a. a @ py_repeat m (Max (set (map len outs)) - len a)) outs)
                    outputs)"
      by simp
    from pad_tensorize [OF L' input_ids_tensor(1) [OF M fi fp] attention_mask_tensor(1) [OF M] lab]
    show ?thesis by blast
  qed
qed

lemma attention_mask_row_sums:
  assumes "pad inputs outputs p side True lm packed m = Inr (ids, am, labs)"
  shows "\<exists>rows. am = Some (if packed then PyList rows else Tensor rows)
           \<and> length rows = length inputs
           \<and> (\<forall>i<length inputs. sum_list (rows ! i) = len (inputs ! i))"
proof -
  from pad_Inr_lists [OF assms] obtain ids' am' labs' where
    L: "pad_lists inputs outputs p side True lm packed m = Inr (ids', am', labs')"
    and R: "if packed
            then ids = PyList ids' \<and> am = map_option PyList am'
                 \<and> labs = map_option PyList labs'
            else torch_tensor ids' = Inr ids
                 \<and> (\<exists>a t. am' = Some a \<and> torch_tensor a = Inr t \<and> am = Some t)
                 \<and> (case labs' of
                       None \<Rightarrow> labs = None
                     | Some l \<Rightarrow> \<exists>t. torch_tensor l = Inr t \<and> labs = Some t)"
    by blast
  from pad_lists_encoder_decoder_Inr [OF L] obtain M where
    M: "max_len inputs = Inr M"
    and am': "am' = Some (if side = left
                      then map (\<lambda>a. py_repeat 0 (M - len a) @ py_repeat 1 (len a)) inputs
                      else map (\<lambda>a. py_repeat 1 (len a) @ py_repeat 0 (M - len a)) inputs)"
    by blast
  let ?rows = "if side = left
               then map (\<lambda>a. py_repeat 0 (M - len a) @ py_repeat 1 (len a)) inputs
               else map (\<lambda>a. py_repeat 1 (len a) @ py_repeat 0 (M - len a)) inputs"
  have T: "torch_tensor ?rows = Inr (Tensor ?rows)"
    by (simp add: attention_mask_tensor [OF M])
  have "am = Some (if packed then PyList ?rows else Tensor ?rows)"
  proof (cases packed)
    case True
    with R am' show ?thesis by simp
  next
    case False
    with R am' obtain t where "torch_tensor ?rows = Inr t" and "am = Some t" by auto
    with T False show ?thesis by simp
  qed
  moreover have "length ?rows = length inputs" by simp
  moreover have "\<forall>i<length inputs. sum_list (?rows ! i) = len (inputs ! i)"
    by (simp add: sum_list_py_repeat)
  ultimately show ?thesis
    by - (rule exI [of _ ?rows], intro conjI)
qed

text \<open>
  Claim C3. For an encoder-decoder batch and either padding side, whenever \<open>_pad\<close>
  returns, the attention mask has one row for each input and each row sums to the length
  of that input before padding. It does return for a batch without outputs that has an
  input and whose token ids fit in 64-bit integers.
\<close>

theorem pad_encoder_decoder_attention_mask:
  "(pad inputs outputs p side True lm packed m = Inr (ids, am, labs) \<longrightarrow>
      (\<exists>rows. am = Some (if packed then PyList rows else Tensor rows)
          \<and> length rows = length inputs
          \<and> (\<forall>i<length inputs. sum_list (rows ! i) = len (inputs ! i))))
   \<and> (inputs \<noteq> [] \<and> list_all (list_all fits_int64) inputs \<and> fits_int64 p \<longrightarrow>
        (\<exists>ids am labs. pad inputs None p side True lm False m = Inr (ids, am, labs)))"
proof (intro conjI impI)
  assume "pad inputs outputs p side True lm packed m = Inr (ids, am, labs)"
  then show "\<exists>rows. am = Some (if packed then PyList rows else Tensor rows)
          \<and> length rows = length inputs
          \<and> (\<forall>i<length inputs. sum_list (rows ! i) = len (inputs ! i))"
    by (rule attention_mask_row_sums)
next
  assume "inputs \<noteq> [] \<and> list_all (list_all fits_int64) inputs \<and> fits_int64 p"
  then show "\<exists>ids am labs. pad inputs None p side True lm False m = Inr (ids, am, labs)"
    by (intro pad_encoder_decoder_returns) simp_all
qed

theorem pad_encoder_decoder_attention_mask_witness:
  "pad [[1], [2, 3]] None 0 left True (NotAPolicy ''None'') False (- 100)
     = Inr (Tensor [[0, 1], [2, 3]], Some (Tensor [[0, 1], [1, 1]]), None)
   \<and> (\<exists>rows. Some (Tensor [[0, 1], [1, 1]]) = Some (if False then PyList rows else Tensor rows)
         \<and> length rows = length [[1], [2, 3 :: int]]
         \<and> (\<forall>i<length [[1], [2, 3 :: int]]. sum_list (rows ! i) = len ([[1], [2, 3 :: int]] ! i)))
   \<and> (\<exists>ids am labs.
          pad [[1], [2, 3]] None 0 left True (NotAPolicy ''None'') False (- 100)
            = Inr (ids, am, labs))"
proof -
  have v: "pad [[1], [2, 3]] None 0 left True (NotAPolicy ''None'') False (- 100)
     = Inr (Tensor [[0, 1], [2, 3]], Some (Tensor [[0, 1], [1, 1]]), None)"
    by code_simp
  have h: "[[1], [2, 3 :: int]] \<noteq> [] \<and> list_all (list_all fits_int64) [[1], [2, 3]]
             \<and> fits_int64 0"
    by (simp add: fits_int64_def)
  note t = pad_encoder_decoder_attention_mask
             [where inputs = "[[1], [2, 3]]" and outputs = None and p = 0 and side = left
                and lm = "NotAPolicy ''None''" and packed = False and m = "- 100"
                and ids = "Tensor [[0, 1], [2, 3]]" and am = "Some (Tensor [[0, 1], [1, 1]])"
                and labs = None]
  note c1 = t [THEN conjunct1, THEN mp, OF v]
  note c2 = t [THEN conjunct2, THEN mp, OF h]
  show ?thesis by (rule conjI [OF v conjI [OF c1 c2]])
qed

lemma max_len_nonneg:
  assumes "max_len rows = Inr M"
  shows "0 \<le> M"
proof -
  from max_len_attained [OF assms] obtain a where "a \<in> set rows" and "len a = M"
    by blast
  then show ?thesis by auto
qed

lemma right_padded_row:
  assumes "len a \<le> Mo"
  shows "a @ py_repeat m (Mo - len a) = a @ replicate (nat Mo - length a) m"
    and "length (a @ py_repeat m (Mo - len a)) = nat Mo"
  using assms by (simp_all add: py_repeat_def nat_diff_distrib')

text \<open>
  Claim C4 (as amended). On the encoder-decoder path of \<open>_pad\<close>. When outputs are given:
  on a batch with at least one input, a loss mask other than \<open>output_only\<close> fails with
  the assertion error on the loss mask (on a batch without inputs \<open>max\<close> raises first,
  whatever the loss mask and the outputs); whenever \<open>_pad\<close> returns, the loss mask is
  \<open>output_only\<close> and each labels row is the output followed by the sentinel up to the
  greatest output length, whatever the padding side; and outside padding-free mode it
  does return for a batch with inputs and outputs whose values fit in 64-bit integers.
  When outputs are absent: no labels are built (\<open>labels\<close> is \<open>None\<close>) and the loss
  mask is not looked at, the result being the same for every loss mask; outside
  padding-free mode \<open>_pad\<close> returns for a batch with an input whose token ids fit in
  64-bit integers.
\<close>

theorem pad_encoder_decoder_labels:
  "(lm \<noteq> Policy output_only \<longrightarrow>
      (\<exists>e. pad inputs (Some outs) p side True lm packed m = Inl e)
    \<and> (inputs \<noteq> [] \<longrightarrow>
          pad inputs (Some outs) p side True lm packed m
            = Inl (AssertionError
                     ''only output_only loss mask is supported with encoder decoder models'')))
   \<and> (pad inputs (Some outs) p side True lm packed m = Inr (ids, am, labs) \<longrightarrow>
        lm = Policy output_only
      \<and> (\<exists>rows Mo.
            labs = Some (if packed then PyList rows else Tensor rows)
          \<and> max_len outs = Inr (int Mo)
          \<and> length rows = length outs
          \<and> (\<forall>i<length outs.
                rows ! i = outs ! i @ replicate (Mo - length (outs ! i)) m
              \<and> length (rows ! i) = Mo)))
   \<and> (inputs \<noteq> [] \<and> outs \<noteq> [] \<and> list_all (list_all fits_int64) inputs
        \<and> list_all (list_all fits_int64) outs \<and> fits_int64 p \<and> fits_int64 m \<longrightarrow>
        (\<exists>ids am labs.
            pad inputs (Some outs) p side True (Policy output_only) False m = Inr (ids, am, labs)))
   \<and> pad [] outputs p side True lm packed m = Inl MaxOfEmpty
   \<and> pad inputs None p side True lm packed m = pad inputs None p side True lm' packed m
   \<and> (pad inputs None p side True lm packed m = Inr (ids, am, labs) \<longrightarrow> labs = None)
   \<and> (inputs \<noteq> [] \<and> list_all (list_all fits_int64) inputs \<and> fits_int64 p \<longrightarrow>
        (\<exists>ids am. pad inputs None p side True lm False m = Inr (ids, am, None)))"
proof (intro conjI impI)
  assume lm: "lm \<noteq> Policy output_only"
  then show "\<exists>e. pad inputs (Some outs) p side True lm packed m = Inl e"
    by (cases "max_len inputs") (simp_all add: pad_def pad_lists_def Let_def)
  assume "inputs \<noteq> []"
  then have "max_len inputs = Inr (Max (set (map len inputs)))" by (rule max_len_nonempty)
  with lm show "pad inputs (Some outs) p side True lm packed m
            = Inl (AssertionError
                     ''only output_only loss mask is supported with encoder decoder models'')"
    by (simp add: pad_def pad_lists_def Let_def)
next
  assume r: "pad inputs (Some outs) p side True lm packed m = Inr (ids, am, labs)"
  from pad_Inr_lists [OF r] obtain ids' am' labs' where
    L: "pad_lists inputs (Some outs) p side True lm packed m = Inr (ids', am', labs')"
    and R: "if packed
            then ids = PyList ids' \<and> am = map_option PyList am'
                 \<and> labs = map_option PyList labs'
            else torch_tensor ids' = Inr ids
                 \<and> (\<exists>a t. am' = Some a \<and> torch_tensor a = Inr t \<and> am = Some t)
                 \<and> (case labs' of
                       None \<Rightarrow> labs = None
                     | Some l \<Rightarrow> \<exists>t. torch_tensor l = Inr t \<and> labs = Some t)"
    by blast
  from pad_lists_encoder_decoder_Inr [OF L] obtain Mo where
    lm: "lm = Policy output_only" and Mo: "max_len outs = Inr Mo"
    and labs': "labs' = Some (map (\<lambda>a. a @ py_repeat m (Mo - len a)) outs)"
    by auto
  from lm show "lm = Policy output_only" .
  let ?rows = "map (\<lambda>a. a @ py_repeat m (Mo - len a)) outs"
  have rect: "rectangular ?rows"
  proof (rule rectangularI [where n = "nat Mo"])
    fix r assume "r \<in> set ?rows"
    then obtain a where a: "a \<in> set outs" and r: "r = a @ py_repeat m (Mo - len a)"
      by auto
    from max_len_bound [OF Mo a] have "len a \<le> Mo" .
    from right_padded_row(2) [OF this] r show "length r = nat Mo" by simp
  qed
  have 1: "labs = Some (if packed then PyList ?rows else Tensor ?rows)"
  proof (cases packed)
    case True
    with R labs' show ?thesis by simp
  next
    case False
    with R labs' obtain t where "torch_tensor ?rows = Inr t" and "labs = Some t" by auto
    with torch_tensor_rect [OF _ rect] False show ?thesis by simp
  qed
  from max_len_nonneg [OF Mo] Mo have 2: "max_len outs = Inr (int (nat Mo))" by simp
  have 3: "length ?rows = length outs" by simp
  have 4: "\<forall>i<length outs.
              ?rows ! i = outs ! i @ replicate (nat Mo - length (outs ! i)) m
            \<and> length (?rows ! i) = nat Mo"
  proof (intro allI impI)
    fix i assume i: "i < length outs"
    then have "len (outs ! i) \<le> Mo"
      using max_len_bound [OF Mo] by simp
    from right_padded_row [OF this, of m] i
    show "?rows ! i = outs ! i @ replicate (nat Mo - length (outs ! i)) m
            \<and> length (?rows ! i) = nat Mo"
      by simp
  qed
  from 1 2 3 4
  have "labs = Some (if packed then PyList ?rows else Tensor ?rows)
          \<and> max_len outs = Inr (int (nat Mo))
          \<and> length ?rows = length outs
          \<and> (\<forall>i<length outs.
                ?rows ! i = outs ! i @ replicate (nat Mo - length (outs ! i)) m
              \<and> length (?rows ! i) = nat Mo)"
    by (intro conjI)
  then show "\<exists>rows Mo.
            labs = Some (if packed then PyList rows else Tensor rows)
          \<and> max_len outs = Inr (int Mo)
          \<and> length rows = length outs
          \<and> (\<forall>i<length outs.
                rows ! i = outs ! i @ replicate (Mo - length (outs ! i)) m
              \<and> length (rows ! i) = Mo)"
    by - (rule exI, rule exI, assumption)
next
  assume a: "inputs \<noteq> [] \<and> outs \<noteq> [] \<and> list_all (list_all fits_int64) inputs
        \<and> list_all (list_all fits_int64) outs \<and> fits_int64 p \<and> fits_int64 m"
  then have "case Some outs of None \<Rightarrow> True
              | Some outs \<Rightarrow> Policy output_only = Policy output_only \<and> outs \<noteq> []
                    \<and> list_all (list_all fits_int64) outs \<and> fits_int64 m"
    by simp
  with a show "\<exists>ids am labs.
            pad inputs (Some outs) p side True (Policy output_only) False m = Inr (ids, am, labs)"
    by (intro pad_encoder_decoder_returns) simp_all
next
  show "pad [] outputs p side True lm packed m = Inl MaxOfEmpty"
    by (simp add: pad_def pad_lists_def max_len_def)
next
  show "pad inputs None p side True lm packed m = pad inputs None p side True lm' packed m"
    by (cases "max_len inputs") (simp_all add: pad_def pad_lists_def Let_def)
next
  assume r: "pad inputs None p side True lm packed m = Inr (ids, am, labs)"
  from pad_Inr_lists [OF r] obtain ids' am' labs' where
    L: "pad_lists inputs None p side True lm packed m = Inr (ids', am', labs')"
    and R: "if packed
            then ids = PyList ids' \<and> am = map_option PyList am'
                 \<and> labs = map_option PyList labs'
            else torch_tensor ids' = Inr ids
                 \<and> (\<exists>a t. am' = Some a \<and> torch_tensor a = Inr t \<and> am = Some t)
                 \<and> (case labs' of
                       None \<Rightarrow> labs = None
                     | Some l \<Rightarrow> \<exists>t. torch_tensor l = Inr t \<and> labs = Some t)"
    by blast
  from pad_lists_encoder_decoder_Inr [OF L] have "labs' = None" by auto
  with R show "labs = None" by (cases packed) simp_all
next
  assume a: "inputs \<noteq> [] \<and> list_all (list_all fits_int64) inputs \<and> fits_int64 p"
  then have ne: "inputs \<noteq> []" by simp
  from a pad_encoder_decoder_returns
           [where inputs = inputs and p = p and outputs = None and lm = lm and m = m
              and side = side]
  obtain ids am labs where r: "pad inputs None p side True lm False m = Inr (ids, am, labs)"
    by auto
  from pad_Inr_lists [OF r] obtain ids' am' labs' where
    L: "pad_lists inputs None p side True lm False m = Inr (ids', am', labs')"
    and R: "if False
            then ids = PyList ids' \<and> am = map_option PyList am'
                 \<and> labs = map_option PyList labs'
            else torch_tensor ids' = Inr ids
                 \<and> (\<exists>a t. am' = Some a \<and> torch_tensor a = Inr t \<and> am = Some t)
                 \<and> (case labs' of
                       None \<Rightarrow> labs = None
                     | Some l \<Rightarrow> \<exists>t. torch_tensor l = Inr t \<and> labs = Some t)"
    by blast
  from pad_lists_encoder_decoder_Inr [OF L] have "labs' = None" by auto
  with R have "labs = None" by simp
  with r show "\<exists>ids am. pad inputs None p side True lm False m = Inr (ids, am, None)"
    by blast
qed

theorem pad_encoder_decoder_labels_counterexample:
  "pad [[1]] None 0 right True (NotAPolicy ''None'') False (- 100)
     = Inr (Tensor [[1]], Some (Tensor [[1]]), None)"
  by code_simp

theorem pad_encoder_decoder_labels_witness:
  "pad [[1], [2, 3]] (Some [[7], [8, 9]]) 0 left True (Policy no_mask) False (- 100)
     = Inl (AssertionError ''only output_only loss mask is supported with encoder decoder models'')
   \<and> pad [[1], [2, 3]] (Some [[7], [8, 9]]) 0 left True (Policy output_only) False (- 100)
     = Inr (Tensor [[0, 1], [2, 3]], Some (Tensor [[0, 1], [1, 1]]),
            Some (Tensor [[7, - 100], [8, 9]]))
   \<and> (\<exists>rows Mo.
          Some (Tensor [[7, - 100], [8, 9]]) = Some (if False then PyList rows else Tensor rows)
        \<and> max_len [[7], [8, 9 :: int]] = Inr (int Mo)
        \<and> length rows = length [[7], [8, 9 :: int]]
        \<and> (\<forall>i<length [[7], [8, 9 :: int]].
              rows ! i = [[7], [8, 9]] ! i @ replicate (Mo - length ([[7], [8, 9 :: int]] ! i)) (- 100)
            \<and> length (rows ! i) = Mo))
   \<and> (\<exists>ids am labs.
          pad [[1], [2, 3]] (Some [[7], [8, 9]]) 0 left True (Policy output_only) False (- 100)
            = Inr (ids, am, labs))
   \<and> pad [[1], [2, 3]] None 0 left True (Policy no_mask) False (- 100)
     = Inr (Tensor [[0, 1], [2, 3]], Some (Tensor [[0, 1], [1, 1]]), None)
   \<and> (None :: nested option) = None
   \<and> (\<exists>ids am. pad [[1], [2, 3]] None 0 left True (Policy no_mask) False (- 100)
                  = Inr (ids, am, None))"
proof -
  have ne: "[[1], [2, 3 :: int]] \<noteq> []" and lm: "Policy no_mask \<noteq> Policy output_only"
    by simp_all
  note t1 = pad_encoder_decoder_labels
              [where lm = "Policy no_mask" and inputs = "[[1], [2, 3]]" and outs = "[[7], [8, 9]]"
                 and p = 0 and side = left and packed = False and m = "- 100"
                 and ids = "Tensor [[0, 1], [2, 3]]" and am = "Some (Tensor [[0, 1], [1, 1]])"
                 and labs = None]
  from t1 [THEN conjunct1, THEN mp, OF lm, THEN conjunct2, THEN mp, OF ne]
  have a: "pad [[1], [2, 3]] (Some [[7], [8, 9]]) 0 left True (Policy no_mask) False (- 100)
     = Inl (AssertionError ''only output_only loss mask is supported with encoder decoder models'')" .
  have v: "pad [[1], [2, 3]] (Some [[7], [8, 9]]) 0 left True (Policy output_only) False (- 100)
     = Inr (Tensor [[0, 1], [2, 3]], Some (Tensor [[0, 1], [1, 1]]),
            Some (Tensor [[7, - 100], [8, 9]]))"
    by code_simp
  note t2 = pad_encoder_decoder_labels
              [where lm = "Policy output_only" and inputs = "[[1], [2, 3]]"
                 and outs = "[[7], [8, 9]]" and p = 0 and side = left and packed = False
                 and m = "- 100" and ids = "Tensor [[0, 1], [2, 3]]"
                 and am = "Some (Tensor [[0, 1], [1, 1]])"
                 and labs = "Some (Tensor [[7, - 100], [8, 9]])"]
  note b = t2 [THEN conjunct2, THEN conjunct1, THEN mp, OF v, THEN conjunct2]
  have h3: "[[1], [2, 3 :: int]] \<noteq> [] \<and> [[7], [8, 9 :: int]] \<noteq> []
        \<and> list_all (list_all fits_int64) [[1], [2, 3]]
        \<and> list_all (list_all fits_int64) [[7], [8, 9]] \<and> fits_int64 0 \<and> fits_int64 (- 100)"
    by (simp add: fits_int64_def)
  note c = t2 [THEN conjunct2, THEN conjunct2, THEN conjunct1, THEN mp, OF h3]
  have w: "pad [[1], [2, 3]] None 0 left True (Policy no_mask) False (- 100)
     = Inr (Tensor [[0, 1], [2, 3]], Some (Tensor [[0, 1], [1, 1]]), None)"
    by code_simp
  note d = t1 [THEN conjunct2, THEN conjunct2, THEN conjunct2, THEN conjunct2, THEN conjunct2,
               THEN conjunct1, THEN mp, OF w]
  have h7: "[[1], [2, 3 :: int]] \<noteq> [] \<and> list_all (list_all fits_int64) [[1], [2, 3]]
        \<and> fits_int64 0"
    by (simp add: fits_int64_def)
  note e = t1 [THEN conjunct2, THEN conjunct2, THEN conjunct2, THEN conjunct2, THEN conjunct2,
               THEN conjunct2, THEN mp, OF h7]
  show ?thesis
    by (rule conjI [OF a conjI [OF v conjI [OF b conjI [OF c conjI [OF w conjI [OF d e]]]]]])
qed








section \<open>Properties of the model wrapper\<close>

text \<open>
  Claim C7 (as amended). In \<open>get_model_tflops\<close> the MLP term is \<open>6*b*s*h*f\<close> when the
  activation function is of the GLU family and \<open>4*b*s*h*f\<close> otherwise, so the MLP terms
  of two calls that differ only in the activation differ by exactly \<open>2*b*s*h*f\<close>, in
  particular for \<open>b=2\<close>, \<open>s=128\<close>, \<open>h=768\<close>, \<open>f=3072\<close>. The forward term is the
  floating-point sum of the attention term and this MLP term; for these sizes with 12
  heads and 12 key-value heads the forward terms of the two calls are 4932501504 and
  3724541952 and differ by exactly \<open>2*b*s*h*f\<close>.
\<close>

theorem mlp_flops_glu:
  "mlp_flops b s h f True = 6 * b * s * h * f
   \<and> mlp_flops b s h f False = 4 * b * s * h * f
   \<and> mlp_flops b s h f True - mlp_flops b s h f False = 2 * b * s * h * f
   \<and> mlp_flops 2 128 768 3072 True = 6 * 2 * 128 * 768 * 3072
   \<and> mlp_flops 2 128 768 3072 False = 4 * 2 * 128 * 768 * 3072
   \<and> forward_flops b s h f n k glu
       = and_then (attention_flops b s h n k) (\<lambda>attention.
         and_then (float_of_int (if glu then 6 * b * s * h * f else 4 * b * s * h * f))
           (float_add attention))
   \<and> forward_flops 2 128 768 3072 12 12 True = Inr (5172102697058304, - 20)
   \<and> forward_flops 2 128 768 3072 12 12 False = Inr (7810930603720704, - 21)
   \<and> double_value (5172102697058304, - 20) = 4932501504
   \<and> double_value (7810930603720704, - 21) = 3724541952
   \<and> double_value (5172102697058304, - 20) - double_value (7810930603720704, - 21)
       = 2 * 2 * 128 * 768 * 3072"
proof -
  have 1: "mlp_flops b s h f True = 6 * b * s * h * f"
    and 2: "mlp_flops b s h f False = 4 * b * s * h * f"
    and 3: "mlp_flops b s h f True - mlp_flops b s h f False = 2 * b * s * h * f"
    and 4: "mlp_flops 2 128 768 3072 True = 6 * 2 * 128 * 768 * 3072"
    and 5: "mlp_flops 2 128 768 3072 False = 4 * 2 * 128 * 768 * 3072"
    by (simp_all add: mlp_flops_def Let_def)
  have 0: "forward_flops b s h f n k glu
       = and_then (attention_flops b s h n k) (\<lambda>attention.
         and_then (float_of_int (if glu then 6 * b * s * h * f else 4 * b * s * h * f))
           (float_add attention))"
  proof -
    have "mlp_flops b s h f glu = (if glu then 6 * b * s * h * f else 4 * b * s * h * f)"
      by (simp add: mlp_flops_def Let_def)
    then show ?thesis by (simp only: forward_flops_def)
  qed
  have 6: "forward_flops 2 128 768 3072 12 12 True = Inr (5172102697058304, - 20)"
    by code_simp
  have 7: "forward_flops 2 128 768 3072 12 12 False = Inr (7810930603720704, - 21)"
    by code_simp
  have 8: "double_value (5172102697058304, - 20) = 4932501504"
    by (simp add: double_value_def)
  have 9: "double_value (7810930603720704, - 21) = 3724541952"
    by (simp add: double_value_def)
  have 10: "double_value (5172102697058304, - 20) - double_value (7810930603720704, - 21)
       = 2 * 2 * 128 * 768 * 3072"
    unfolding 8 9 by simp
  from 1 2 3 4 5 0 6 7 8 9 10 show ?thesis by (intro conjI)
qed

theorem mlp_flops_glu_counterexample:
  "forward_flops 1 128 5120 13824 12 4 True = Inr (4757220309510826, - 16)
   \<and> forward_flops 1 128 5120 13824 12 4 False = Inr (7139495503025493, - 17)
   \<and> double_value (4757220309510826, - 16) - double_value (7139495503025493, - 17)
       \<noteq> 2 * 1 * 128 * 5120 * 13824"
proof -
  have 1: "forward_flops 1 128 5120 13824 12 4 True = Inr (4757220309510826, - 16)"
    by code_simp
  have 2: "forward_flops 1 128 5120 13824 12 4 False = Inr (7139495503025493, - 17)"
    by code_simp
  have 3: "double_value (4757220309510826, - 16) - double_value (7139495503025493, - 17)
       \<noteq> 2 * 1 * 128 * 5120 * 13824"
    by (simp add: double_value_def)
  from 1 2 3 show ?thesis by (intro conjI)
qed




lemma pad_decoder_inference_returns:
  assumes ne: "inputs \<noteq> []"
    and fi: "list_all (list_all fits_int64) inputs" and fp: "fits_int64 p"
  shows "\<exists>r rs am. pad inputs None p side False lm False m = Inr (Tensor (r # rs), am, None)"
proof -
  let ?M = "Max (set (map len inputs))"
  from ne have M: "max_len inputs = Inr ?M" by (rule max_len_nonempty)
  from ne obtain a as where i: "inputs = a # as" by (cases inputs) auto
  have lab: "torch_tensor rows = Inr (Tensor rows)" if "None = Some rows" for rows
    using that by simp
  show ?thesis
  proof (cases "side = left")
    case True
    with M have L: "pad_lists inputs None p side False lm False m
           = Inr (map (\<lambda>a. py_repeat p (?M - len a) @ a) inputs,
                  Some (map (\<lambda>a. py_repeat 0 (?M - len a) @ py_repeat 1 (len a)) inputs),
                  None)"
      by (simp add: pad_lists_def Let_def)
    from pad_tensorize [OF L input_ids_tensor(2) [OF M fi fp] attention_mask_tensor(2) [OF M] lab]
    show ?thesis unfolding i by simp
  next
    case False
    with M have L: "pad_lists inputs None p side False lm False m
           = Inr (map (\<lambda>a. a @ py_repeat p (?M - len a)) inputs,
                  Some (map (\<lambda>a. py_repeat 1 (len a) @ py_repeat 0 (?M - len a)) inputs),
                  None)"
      by (simp add: pad_lists_def Let_def)
    from pad_tensorize [OF L input_ids_tensor(1) [OF M fi fp] attention_mask_tensor(1) [OF M] lab]
    show ?thesis unfolding i by simp
  qed
qed

lemma generate_inference_returns:
  assumes "\<not> use_padding_free_transformer self" and "\<not> is_encoder_decoder self"
    and "mode self \<noteq> training"
    and "inputs \<noteq> []" and "list_all (list_all fits_int64) inputs"
    and "fits_int64 (eos_token_id self)"
  shows "\<exists>texts counts. generate self model_generate decode (inputs, outputs) = Inr (texts, counts)"
proof -
  from pad_decoder_inference_returns [OF assms(4,5,6), of "padding_side self" "loss_mask self" "- 100"]
  obtain r rs am where
    "pad inputs None (eos_token_id self) (padding_side self) False (loss_mask self) False (- 100)
       = Inr (Tensor (r # rs), am, None)"
    by blast
  with assms(1,2,3) show ?thesis
    by (simp add: generate_def prepare_batch_def)
qed

lemma num_generated_tokens_nth:
  assumes "i < length generated"
  shows "num_generated_tokens generated eos ! i
           = 1 + int (card {j. j < length (generated ! i) \<and> generated ! i ! j \<noteq> eos})"
  using assms by (simp add: num_generated_tokens_def length_filter_conv_card)

text \<open>
  Claim C6. Whenever \<open>generate\<close> returns, the count it gives for each example is 1 plus
  the number of positions of the trimmed generated row (the model's output row, without
  the echoed input prefix for a decoder-only model) whose token differs from the
  tokenizer's end-of-sequence id. A generated row \<open>[5, 7, eos, eos]\<close> gives the count 3.
  For a decoder-only wrapper outside training and padding-free mode, \<open>generate\<close> does
  return on a batch with an input and token ids that fit in 64-bit integers.
\<close>

theorem generate_token_counts:
  "(generate self model_generate decode batch = Inr (texts, counts) \<longrightarrow>
      (\<exists>b generated.
          prepare_batch self batch = Inr b
        \<and> (if is_encoder_decoder self then generated = model_generate b
           else \<exists>width. shape1 (input_ids b) = Inr width
                        \<and> generated = map (drop width) (model_generate b))
        \<and> texts = map decode generated
        \<and> length counts = length generated
        \<and> (\<forall>i<length generated.
              counts ! i
                = 1 + int (card {j. j < length (generated ! i)
                                     \<and> generated ! i ! j \<noteq> eos_token_id self}))))
   \<and> (eos \<noteq> 5 \<and> eos \<noteq> 7 \<longrightarrow> num_generated_tokens [[5, 7, eos, eos]] eos = [3])
   \<and> (\<not> use_padding_free_transformer self \<and> \<not> is_encoder_decoder self
        \<and> mode self \<noteq> training \<and> inputs \<noteq> [] \<and> list_all (list_all fits_int64) inputs
        \<and> fits_int64 (eos_token_id self) \<longrightarrow>
        (\<exists>texts counts.
            generate self model_generate decode (inputs, outputs) = Inr (texts, counts)))"
proof (intro conjI impI)
  assume g: "generate self model_generate decode batch = Inr (texts, counts)"
  then obtain b where b: "prepare_batch self batch = Inr b"
    by (auto simp: generate_def split: if_splits sum.splits)
  from g b obtain generated where
    gen: "(if is_encoder_decoder self then generated = model_generate b
           else \<exists>width. shape1 (input_ids b) = Inr width
                        \<and> generated = map (drop width) (model_generate b))"
    and t: "texts = map decode generated"
    and c: "counts = num_generated_tokens generated (eos_token_id self)"
    by (auto simp: generate_def split: if_splits sum.splits)
  from c have "length counts = length generated"
    by (simp add: num_generated_tokens_def)
  moreover from c have "\<forall>i<length generated.
      counts ! i = 1 + int (card {j. j < length (generated ! i)
                                      \<and> generated ! i ! j \<noteq> eos_token_id self})"
    by (simp add: num_generated_tokens_nth)
  ultimately show "\<exists>b generated.
          prepare_batch self batch = Inr b
        \<and> (if is_encoder_decoder self then generated = model_generate b
           else \<exists>width. shape1 (input_ids b) = Inr width
                        \<and> generated = map (drop width) (model_generate b))
        \<and> texts = map decode generated
        \<and> length counts = length generated
        \<and> (\<forall>i<length generated.
              counts ! i
                = 1 + int (card {j. j < length (generated ! i)
                                     \<and> generated ! i ! j \<noteq> eos_token_id self}))"
    using b gen t by blast
next
  assume "eos \<noteq> 5 \<and> eos \<noteq> 7"
  then show "num_generated_tokens [[5, 7, eos, eos]] eos = [3]"
    by (simp add: num_generated_tokens_def)
next
  assume "\<not> use_padding_free_transformer self \<and> \<not> is_encoder_decoder self
        \<and> mode self \<noteq> training \<and> inputs \<noteq> [] \<and> list_all (list_all fits_int64) inputs
        \<and> fits_int64 (eos_token_id self)"
  then show "\<exists>texts counts.
            generate self model_generate decode (inputs, outputs) = Inr (texts, counts)"
    by (intro generate_inference_returns) simp_all
qed

theorem generate_token_counts_witness:
  "generate \<lparr>mode = inference, padding_side = left, is_encoder_decoder = False,
               loss_mask = NotAPolicy ''None'', use_padding_free_transformer = False,
               eos_token_id = 2\<rparr>
       (\<lambda>b. [[1, 2, 5, 7, 2, 2]]) (\<lambda>row. ''text'') ([[1, 2]], None)
     = Inr ([''text''], [3])
   \<and> (\<exists>generated. [''text''] = map (\<lambda>row. ''text'') generated
         \<and> length [3 :: int] = length generated
         \<and> (\<forall>i<length generated.
               [3] ! i = 1 + int (card {j. j < length (generated ! i) \<and> generated ! i ! j \<noteq> (2 :: int)})))
   \<and> num_generated_tokens [[5, 7, 2, 2]] 2 = [3]
   \<and> (\<exists>texts counts.
          generate \<lparr>mode = inference, padding_side = left, is_encoder_decoder = False,
                      loss_mask = NotAPolicy ''None'', use_padding_free_transformer = False,
                      eos_token_id = 2\<rparr>
              (\<lambda>b. [[1, 2, 5, 7, 2, 2]]) (\<lambda>row. ''text'') ([[1, 2]], None)
            = Inr (texts, counts))"
proof -
  let ?self = "\<lparr>mode = inference, padding_side = left, is_encoder_decoder = False,
                 loss_mask = NotAPolicy ''None'', use_padding_free_transformer = False,
                 eos_token_id = 2\<rparr>"
  have g: "generate ?self (\<lambda>b. [[1, 2, 5, 7, 2, 2]]) (\<lambda>row. ''text'') ([[1, 2]], None)
             = Inr ([''text''], [3])"
    by code_simp
  note t = generate_token_counts
             [where self = ?self and model_generate = "\<lambda>b. [[1, 2, 5, 7, 2, 2]]"
                and decode = "\<lambda>row. ''text''" and batch = "([[1, 2]], None)"
                and texts = "[''text'']" and counts = "[3]" and eos = 2
                and inputs = "[[1, 2]]" and outputs = None]
  from conjunct1 [OF t] g have "\<exists>b generated.
          prepare_batch ?self ([[1, 2]], None) = Inr b
        \<and> (if is_encoder_decoder ?self then generated = (\<lambda>b. [[1, 2, 5, 7, 2, 2]]) b
           else \<exists>width. shape1 (input_ids b) = Inr width
                        \<and> generated = map (drop width) ((\<lambda>b. [[1, 2, 5, 7, 2, 2]]) b))
        \<and> [''text''] = map (\<lambda>row. ''text'') generated
        \<and> length [3 :: int] = length generated
        \<and> (\<forall>i<length generated.
              [3] ! i
                = 1 + int (card {j. j < length (generated ! i)
                                     \<and> generated ! i ! j \<noteq> eos_token_id ?self}))"
    by (rule mp)
  then obtain generated where
    "[''text''] = map (\<lambda>row. ''text'') generated"
    "length [3 :: int] = length generated"
    "\<forall>i<length generated.
       [3] ! i = 1 + int (card {j. j < length (generated ! i)
                                    \<and> generated ! i ! j \<noteq> eos_token_id ?self})"
    by (elim exE conjE)
  then have "\<exists>generated. [''text''] = map (\<lambda>row. ''text'') generated
         \<and> length [3 :: int] = length generated
         \<and> (\<forall>i<length generated.
               [3] ! i = 1 + int (card {j. j < length (generated ! i)
                                           \<and> generated ! i ! j \<noteq> (2 :: int)}))"
    by (intro exI [of _ generated]) simp
  then have c1: "\<exists>generated. [''text''] = map (\<lambda>row. ''text'') generated
         \<and> length [3 :: int] = length generated
         \<and> (\<forall>i<length generated.
               [3] ! i = 1 + int (card {j. j < length (generated ! i)
                                           \<and> generated ! i ! j \<noteq> (2 :: int)}))" .
  have "(2 :: int) \<noteq> 5 \<and> (2 :: int) \<noteq> 7" by simp
  note c2 = t [THEN conjunct2, THEN conjunct1, THEN mp, OF this]
  have "\<not> use_padding_free_transformer ?self \<and> \<not> is_encoder_decoder ?self
        \<and> mode ?self \<noteq> training \<and> [[1, 2 :: int]] \<noteq> []
        \<and> list_all (list_all fits_int64) [[1, 2]] \<and> fits_int64 (eos_token_id ?self)"
    by (simp add: fits_int64_def)
  note c3 = t [THEN conjunct2, THEN conjunct2, THEN mp, OF this]
  show ?thesis by (rule conjI [OF g conjI [OF c1 conjI [OF c2 c3]]])
qed

section \<open>Properties of pretraining\<close>

text \<open>
  Claim C9. If the validation dataloader list is \<open>None\<close> or empty (for a process that is
  not tensor parallel rank 0 under tensor parallelism: if the source rank decided so and
  broadcast it), \<open>evaluate\<close> returns \<open>None\<close> having made no call but the broadcast:
  no forward pass, no all-reduce of metrics, no switch of the model to evaluation mode.
\<close>

theorem evaluate_noop:
  assumes "if tp_world_size > 1 \<and> tp_rank \<noteq> 0 then src_object
           else (val_dataloaders = None \<or> val_dataloaders = Some [])"
  shows "\<exists>calls. evaluate tp_world_size tp_rank src_object val_dataloaders eval_steps group_names
                   = (calls, Inr ReturnsNone)
           \<and> calls = (if tp_world_size > 1 then [BroadcastObject] else [])
           \<and> ModelForward \<notin> set calls \<and> AllReduceMetrics \<notin> set calls
           \<and> ModelEval \<notin> set calls \<and> ModelTrain \<notin> set calls
           \<and> (\<forall>d. GetNextBatch d \<notin> set calls)"
proof -
  from assms
  have "is_val_dataloader_none tp_world_size tp_rank src_object val_dataloaders"
    by (auto simp: is_val_dataloader_none_def split: if_splits)
  then show ?thesis
    by (simp add: evaluate_def)
qed

theorem evaluate_noop_witness:
  "evaluate 1 0 False (Some ([] :: nat list)) 5 [None] = ([], Inr ReturnsNone)
   \<and> evaluate 1 0 False (None :: nat list option) 5 [None] = ([], Inr ReturnsNone)
   \<and> evaluate 2 1 True (Some [7 :: nat]) 5 [None] = ([BroadcastObject], Inr ReturnsNone)
   \<and> evaluate 2 0 False (Some ([] :: nat list)) 5 [None] = ([BroadcastObject], Inr ReturnsNone)"
  using evaluate_noop [of 1 0 False "Some ([] :: nat list)" 5 "[None]"]
        evaluate_noop [of 1 0 False "None :: nat list option" 5 "[None]"]
        evaluate_noop [of 2 1 True "Some [7 :: nat]" 5 "[None]"]
        evaluate_noop [of 2 0 False "Some ([] :: nat list)" 5 "[None]"]
  by simp

text \<open>
  Claim C8. When a checkpoint is loaded at startup and it has metadata: if the flag
  \<open>load_dataloader_state\<close> is false, the metadata gets \<open>consumed_samples = 0\<close> (and 0
  goes to the dataloader factory) while the starting iteration is the loaded one; if the
  flag is true, the metadata is unchanged and its \<open>consumed_samples\<close> goes to the
  dataloader factory.
\<close>

theorem main_resume_consumed_samples:
  "(\<not> load_dataloader_state la \<longrightarrow>
      main_resume (Some la) (step, Some md, st)
        = Inr (step, Some (md(''consumed_samples'' \<mapsto> 0)), st, 0))
   \<and> (load_dataloader_state la \<and> md ''consumed_samples'' = Some n \<longrightarrow>
      main_resume (Some la) (step, Some md, st) = Inr (step, Some md, st, n))"
  by (simp add: main_resume_def)

theorem main_resume_consumed_samples_witness:
  "main_resume (Some \<lparr>load_dataloader_state = False\<rparr>)
       (100, Some [''consumed_samples'' \<mapsto> 6400], None :: unit option)
     = Inr (100, Some [''consumed_samples'' \<mapsto> 0], None, 0)
   \<and> main_resume (Some \<lparr>load_dataloader_state = True\<rparr>)
       (100, Some [''consumed_samples'' \<mapsto> 6400], None :: unit option)
     = Inr (100, Some [''consumed_samples'' \<mapsto> 6400], None, 6400)"
  using main_resume_consumed_samples
          [where la = "\<lparr>load_dataloader_state = False\<rparr>" and step = 100
             and md = "[''consumed_samples'' \<mapsto> 6400]" and st = "None :: unit option"
             and n = 6400]
        main_resume_consumed_samples
          [where la = "\<lparr>load_dataloader_state = True\<rparr>" and step = 100
             and md = "[''consumed_samples'' \<mapsto> 6400]" and st = "None :: unit option"
             and n = 6400]
  by simp

end
